theory Spec2Isabelle
  imports Main "HOL-Library.Monad_Syntax"
begin

unbundle bit_operations_syntax

section \<open>Configuration (imc\_config.h, openimc.h)\<close>

definition IMC_RECONNECT_DELAY :: int where "IMC_RECONNECT_DELAY = 30"
definition IMC_MAX_RECONNECTS :: int where "IMC_MAX_RECONNECTS = 10"
definition IMC_PING_INTERVAL :: int where "IMC_PING_INTERVAL = 60"
definition IMC_TIMEOUT :: int where "IMC_TIMEOUT = 30"
definition IMC_MAX_TELLS_MIN :: int where "IMC_MAX_TELLS_MIN = 20"
definition IMC_MAX_CHANNELS_MIN :: int where "IMC_MAX_CHANNELS_MIN = 30"
definition IMC_MAX_WHO_MIN :: int where "IMC_MAX_WHO_MIN = 5"

definition IMC_MUD_NAME :: string where "IMC_MUD_NAME = ''YourMUDName''"
definition IMC_API_KEY :: string where "IMC_API_KEY = ''your-api-key-here''"
definition IMC_PROTOCOL_VERSION :: string where "IMC_PROTOCOL_VERSION = ''1.0''"
definition IMC_MESSAGE_TTL :: int where "IMC_MESSAGE_TTL = 300"
definition IMC_MESSAGE_PRIORITY :: int where "IMC_MESSAGE_PRIORITY = 5"

definition IMC_ERR_NONE :: int where "IMC_ERR_NONE = 0"
definition IMC_ERR_NO_CONNECTION :: int where "IMC_ERR_NO_CONNECTION = - 1"
definition IMC_ERR_AUTH_FAILED :: int where "IMC_ERR_AUTH_FAILED = - 2"
definition IMC_ERR_NETWORK :: int where "IMC_ERR_NETWORK = - 9"

section \<open>Program state\<close>

datatype imc_state_t =
  IMC_DISCONNECTED | IMC_CONNECTING | IMC_CONNECTED
  | IMC_AUTHENTICATING | IMC_AUTHENTICATED | IMC_ERROR

datatype imc_msg_type_t =
  IMC_MSG_TELL | IMC_MSG_EMOTE | IMC_MSG_EMOTETO | IMC_MSG_CHANNEL | IMC_MSG_WHO
  | IMC_MSG_FINGER | IMC_MSG_LOCATE | IMC_MSG_PRESENCE | IMC_MSG_AUTH | IMC_MSG_PING
  | IMC_MSG_PONG | IMC_MSG_ERROR | IMC_MSG_UNKNOWN

text \<open>
  \<^verbatim>\<open>struct imc_data\<close>. The field \<open>buffer\<close> holds the bytes \<^verbatim>\<open>buffer[0 .. buflen)\<close>, so
  \<^verbatim>\<open>buflen\<close> is its length. The channel, MUD, history and user lists play no part in the
  connection logic and are left out. \<^verbatim>\<open>time_t\<close> values and \<^verbatim>\<open>int\<close> counters are
  mathematical integers; the theorems that depend on a counter carry its range.
\<close>

record IMC_DATA =
  socket :: int
  state :: imc_state_t
  buffer :: string
  last_ping :: int
  last_pong :: int
  connect_time :: int
  reconnect_attempts :: int

text \<open>
  The globals and function-local statics of mudvault\_mesh.c. \<open>imc_data = None\<close> is the
  NULL pointer. Three fields are observations rather than program variables: \<open>nconnect\<close> and
  \<open>nsent\<close> count the calls of \<^verbatim>\<open>imc_websocket_connect\<close> and \<^verbatim>\<open>imc_websocket_send\<close> made so
  far, and \<open>bad_store\<close> records a store outside a buffer: \<^verbatim>\<open>imc_process_input\<close> storing through
  a negative \<^verbatim>\<open>buflen\<close>, or \<^verbatim>\<open>imc_escape_json\<close> writing past the end of its result while a
  message is built. What the program does after such a store is undefined in C; the functions
  below go on as if it had changed nothing they read.
\<close>

record globals =
  imc_data :: "IMC_DATA option"
  imc_active :: bool
  last_tell_time :: int
  last_channel_time :: int
  last_who_time :: int
  tells_this_minute :: int
  channels_this_minute :: int
  who_this_minute :: int
  last_loop :: int
  last_rate_reset :: int
  nconnect :: nat
  nsent :: nat
  bad_store :: bool

definition initial_globals :: globals where
  "initial_globals =
     \<lparr> imc_data = None, imc_active = False,
       last_tell_time = 0, last_channel_time = 0, last_who_time = 0,
       tells_this_minute = 0, channels_this_minute = 0, who_this_minute = 0,
       last_loop = 0, last_rate_reset = 0, nconnect = 0, nsent = 0, bad_store = False \<rparr>"

section \<open>Rate limiting (mudvault\_mesh.c)\<close>

text \<open>
  \<^verbatim>\<open>imc_check_rate_limit(type, identifier)\<close>; \<open>now\<close> is the value \<^verbatim>\<open>time(NULL)\<close> returns.
  The result pairs the returned flag with the updated statics.
\<close>

definition imc_check_rate_limit :: "string \<Rightarrow> string \<Rightarrow> int \<Rightarrow> globals \<Rightarrow> bool \<times> globals" where
  "imc_check_rate_limit type identifier now g =
     (if type = ''tell'' then
        (let g1 = (if now \<noteq> last_tell_time g
                   then g\<lparr>last_tell_time := now, tells_this_minute := 0\<rparr> else g)
         in if tells_this_minute g1 \<ge> IMC_MAX_TELLS_MIN then (False, g1)
            else (True, g1\<lparr>tells_this_minute := tells_this_minute g1 + 1\<rparr>))
      else if type = ''channel'' then
        (let g1 = (if now \<noteq> last_channel_time g
                   then g\<lparr>last_channel_time := now, channels_this_minute := 0\<rparr> else g)
         in if channels_this_minute g1 \<ge> IMC_MAX_CHANNELS_MIN then (False, g1)
            else (True, g1\<lparr>channels_this_minute := channels_this_minute g1 + 1\<rparr>))
      else if type = ''who'' then
        (let g1 = (if now \<noteq> last_who_time g
                   then g\<lparr>last_who_time := now, who_this_minute := 0\<rparr> else g)
         in if who_this_minute g1 \<ge> IMC_MAX_WHO_MIN then (False, g1)
            else (True, g1\<lparr>who_this_minute := who_this_minute g1 + 1\<rparr>))
      else (True, g))"

definition imc_reset_rate_limits :: "globals \<Rightarrow> globals" where
  "imc_reset_rate_limits g =
     g\<lparr>tells_this_minute := 0, channels_this_minute := 0, who_this_minute := 0\<rparr>"

text \<open>
  A call history: each entry is one call \<open>(type, identifier, now)\<close>, made in order; the
  result lists the flags returned, with the statics after the last call.
\<close>

fun rate_limit_calls :: "(string \<times> string \<times> int) list \<Rightarrow> globals \<Rightarrow> bool list \<times> globals" where
  "rate_limit_calls [] g = ([], g)"
| "rate_limit_calls ((type, identifier, now) # cs) g =
     (let (ok, g1) = imc_check_rate_limit type identifier now g;
          (oks, g2) = rate_limit_calls cs g1
      in (ok # oks, g2))"

section \<open>C strings\<close>

text \<open>
  A C string is the list of its bytes before the terminating NUL; every string handed to
  the functions below is taken to be free of NUL bytes. \<open>c_str\<close> reads a buffer the way a
  \<^verbatim>\<open>char *\<close> is read: up to the first NUL.
\<close>

abbreviation dquote :: char where "dquote \<equiv> CHR 0x22"
abbreviation bslash :: char where "bslash \<equiv> CHR 0x5C"

definition c_str :: "string \<Rightarrow> string" where
  "c_str buf = takeWhile (\<lambda>c. c \<noteq> CHR 0x00) buf"

text \<open>\<^verbatim>\<open>strstr\<close> and \<^verbatim>\<open>strchr\<close> return the suffix that starts at the match (the pointer).\<close>

fun strstr :: "string \<Rightarrow> string \<Rightarrow> string option" where
  "strstr [] needle = (if needle = [] then Some [] else None)"
| "strstr (c # cs) needle =
     (if take (length needle) (c # cs) = needle then Some (c # cs) else strstr cs needle)"

definition strchr :: "string \<Rightarrow> char \<Rightarrow> string option" where
  "strchr s c = (case dropWhile (\<lambda>x. x \<noteq> c) s of [] \<Rightarrow> None | r # rs \<Rightarrow> Some (r # rs))"

definition isdigit :: "char \<Rightarrow> bool" where
  "isdigit c = (48 \<le> (of_char c :: nat) \<and> (of_char c :: nat) \<le> 57)"

definition isspace :: "char \<Rightarrow> bool" where
  "isspace c = (c = CHR '' '' \<or> (9 \<le> (of_char c :: nat) \<and> (of_char c :: nat) \<le> 13))"

definition digit_val :: "char \<Rightarrow> int" where
  "digit_val c = int (of_char c) - 48"

definition isxdigit :: "char \<Rightarrow> bool" where
  "isxdigit c = (isdigit c \<or> (97 \<le> (of_char c :: nat) \<and> (of_char c :: nat) \<le> 102)
                 \<or> (65 \<le> (of_char c :: nat) \<and> (of_char c :: nat) \<le> 70))"

definition xdigit_val :: "char \<Rightarrow> int" where
  "xdigit_val c =
     (if isdigit c then int (of_char c) - 48
      else if 97 \<le> (of_char c :: nat) then int (of_char c) - 87
      else int (of_char c) - 55)"

text \<open>The value of a digit string in the given base, most significant digit first.\<close>

fun digits_value :: "int \<Rightarrow> (char \<Rightarrow> int) \<Rightarrow> int \<Rightarrow> string \<Rightarrow> int" where
  "digits_value base dv acc [] = acc"
| "digits_value base dv acc (c # cs) = digits_value base dv (acc * base + dv c) cs"

text \<open>
  The conversion of an integer to a 32-bit \<^verbatim>\<open>int\<close>, which keeps the low 32 bits, and the range
  of a 64-bit \<^verbatim>\<open>long\<close>, at which \<^verbatim>\<open>strtol\<close> saturates.
\<close>

definition to_int32 :: "int \<Rightarrow> int" where
  "to_int32 v = (v + 2147483648) mod 4294967296 - 2147483648"

definition long_range :: "int \<Rightarrow> int" where
  "long_range v = max (- 9223372036854775808) (min 9223372036854775807 v)"

text \<open>
  \<^verbatim>\<open>atoi\<close>, which is \<^verbatim>\<open>(int) strtol(s, NULL, 10)\<close>: leading white space, an optional sign, then
  decimal digits up to the first other byte; 0 when there is no digit. A value outside the
  range of \<^verbatim>\<open>long\<close> saturates, and the result is cut to 32 bits.
\<close>

definition atoi :: "string \<Rightarrow> int" where
  "atoi s =
     (let t = dropWhile isspace s;
          neg = (t \<noteq> [] \<and> hd t = CHR ''-'');
          u = (if t \<noteq> [] \<and> (hd t = CHR ''-'' \<or> hd t = CHR ''+'') then tl t else t);
          v = digits_value 10 digit_val 0 (takeWhile isdigit u)
      in to_int32 (long_range (if neg then - v else v)))"

text \<open>
  \<^verbatim>\<open>strtol(s, NULL, 16)\<close>: leading white space, an optional sign, an optional
  \<^verbatim>\<open>0x\<close> or \<^verbatim>\<open>0X\<close>, then hexadecimal digits up to the first other byte.
\<close>

definition strtol16 :: "string \<Rightarrow> int" where
  "strtol16 s =
     (let t = dropWhile isspace s;
          neg = (t \<noteq> [] \<and> hd t = CHR ''-'');
          u = (if t \<noteq> [] \<and> (hd t = CHR ''-'' \<or> hd t = CHR ''+'') then tl t else t);
          w = (if take 2 u = ''0x'' \<or> take 2 u = ''0X'' then drop 2 u else u);
          v = digits_value 16 xdigit_val 0 (takeWhile isxdigit w)
      in if neg then - v else v)"

text \<open>
  The value of a \<^verbatim>\<open>char\<close> in a comparison: \<^verbatim>\<open>char\<close> is signed on the platforms the
  integration targets, so bytes from 0x80 are negative.
\<close>

definition char_value :: "char \<Rightarrow> int" where
  "char_value c = (if (of_char c :: nat) \<ge> 128 then int (of_char c) - 256 else int (of_char c))"

definition hex_digit :: "nat \<Rightarrow> char" where
  "hex_digit n = (let d = n mod 16 in char_of (if d < 10 then 48 + d else 87 + d))"

text \<open>\<^verbatim>\<open>"%04x"\<close> of an \<^verbatim>\<open>unsigned char\<close>.\<close>

definition hex4 :: "nat \<Rightarrow> string" where
  "hex4 n = [hex_digit (n div 4096), hex_digit (n div 256), hex_digit (n div 16), hex_digit n]"

text \<open>\<^verbatim>\<open>"%d"\<close>: a minus sign for a negative number, then the decimal digits.\<close>

fun dec_digits :: "nat \<Rightarrow> nat \<Rightarrow> string" where
  "dec_digits 0 n = []"
| "dec_digits (Suc fuel) n =
     (if n < 10 then [char_of (48 + n)]
      else dec_digits fuel (n div 10) @ [char_of (48 + n mod 10)])"

definition printf_d :: "int \<Rightarrow> string" where
  "printf_d i = (if i < 0 then CHR ''-'' # dec_digits (Suc (nat (- i))) (nat (- i))
                 else dec_digits (Suc (nat i)) (nat i))"

section \<open>JSON utilities (json\_simple.c)\<close>

text \<open>
  \<^verbatim>\<open>imc_escape_json\<close> writes into a buffer of \<^verbatim>\<open>len * 2 + 1\<close> bytes. \<open>escape_loop\<close> gives the
  bytes the loop writes. \<open>escape_fits sz j str\<close> tells whether, from index \<open>j\<close> on, every
  store stays below \<open>sz\<close>: a two-byte escape stores at \<open>j\<close> and \<open>j + 1\<close>, \<^verbatim>\<open>sprintf\<close> stores the
  six bytes of a \<^verbatim>\<open>\u\<close> escape and a NUL at \<open>j\<close> to \<open>j + 6\<close>, and the terminating NUL is stored at
  the final \<open>j\<close>. The result is \<open>None\<close> when a store falls outside the buffer.
\<close>

fun escape_loop :: "string \<Rightarrow> string" where
  "escape_loop [] = []"
| "escape_loop (c # cs) =
     (if c = dquote then [bslash, dquote]
      else if c = bslash then [bslash, bslash]
      else if c = CHR 0x08 then [bslash, CHR ''b'']
      else if c = CHR 0x0C then [bslash, CHR ''f'']
      else if c = CHR 0x0A then [bslash, CHR ''n'']
      else if c = CHR 0x0D then [bslash, CHR ''r'']
      else if c = CHR 0x09 then [bslash, CHR ''t'']
      else if char_value c < 32 then bslash # CHR ''u'' # hex4 (of_char c)
      else [c])
     @ escape_loop cs"

fun escape_fits :: "nat \<Rightarrow> nat \<Rightarrow> string \<Rightarrow> bool" where
  "escape_fits sz j [] = (j < sz)"
| "escape_fits sz j (c # cs) =
     (if c = dquote \<or> c = bslash \<or> c = CHR 0x08 \<or> c = CHR 0x0C \<or> c = CHR 0x0A
         \<or> c = CHR 0x0D \<or> c = CHR 0x09
      then j + 1 < sz \<and> escape_fits sz (j + 2) cs
      else if char_value c < 32 then j + 6 < sz \<and> escape_fits sz (j + 6) cs
      else j < sz \<and> escape_fits sz (j + 1) cs)"

definition imc_escape_json :: "string \<Rightarrow> string option" where
  "imc_escape_json str =
     (if escape_fits (length str * 2 + 1) 0 str then Some (escape_loop str) else None)"

text \<open>
  The loop of \<^verbatim>\<open>imc_unescape_json\<close>, on the bytes from index \<open>i\<close> on. \<^verbatim>\<open>i + 1 < len\<close> holds
  when a second byte exists, \<^verbatim>\<open>i + 5 < len\<close> when four more follow it.
\<close>

fun unescape_loop :: "string \<Rightarrow> string" where
  "unescape_loop [] = []"
| "unescape_loop [c] = [c]"
| "unescape_loop (c # e # rest) =
     (if c = bslash then
        (if e = dquote then dquote # unescape_loop rest
         else if e = bslash then bslash # unescape_loop rest
         else if e = CHR ''b'' then CHR 0x08 # unescape_loop rest
         else if e = CHR ''f'' then CHR 0x0C # unescape_loop rest
         else if e = CHR ''n'' then CHR 0x0A # unescape_loop rest
         else if e = CHR ''r'' then CHR 0x0D # unescape_loop rest
         else if e = CHR ''t'' then CHR 0x09 # unescape_loop rest
         else if e = CHR ''u'' then
           (if 4 \<le> length rest then
              (let unicode_val = strtol16 (take 4 rest)
               in (if unicode_val < 128 then char_of unicode_val else CHR ''?'')
                  # unescape_loop (drop 4 rest))
            else c # unescape_loop (e # rest))
         else c # unescape_loop (e # rest))
      else c # unescape_loop (e # rest))"

text \<open>The result is NUL-terminated at index \<open>j\<close> and returned as a \<^verbatim>\<open>char *\<close>.\<close>

definition imc_unescape_json :: "string \<Rightarrow> string" where
  "imc_unescape_json str = c_str (unescape_loop str)"

section \<open>JSON parsing (json\_simple.c)\<close>

text \<open>\<^verbatim>\<open>sprintf(search_key, "\"%s\":", key)\<close>\<close>

definition search_key :: "string \<Rightarrow> string" where
  "search_key key = dquote # key @ [dquote, CHR '':'']"

definition skip_whitespace :: "string \<Rightarrow> string" where
  "skip_whitespace s =
     dropWhile (\<lambda>c. c = CHR '' '' \<or> c = CHR 0x09 \<or> c = CHR 0x0A \<or> c = CHR 0x0D) s"

text \<open>
  The scan for the closing quote: the bytes between \<^verbatim>\<open>value_start\<close> and \<^verbatim>\<open>value_end\<close>,
  or \<open>None\<close> when the string is unterminated.
\<close>

fun closing_quote :: "string \<Rightarrow> string option" where
  "closing_quote [] = None"
| "closing_quote [c] = (if c = dquote then Some [] else None)"
| "closing_quote (c # d # cs) =
     (if c = dquote then Some []
      else if c = bslash then map_option (\<lambda>r. c # d # r) (closing_quote cs)
      else map_option (\<lambda>r. c # r) (closing_quote (d # cs)))"

definition imc_json_get_string :: "string \<Rightarrow> string \<Rightarrow> string option" where
  "imc_json_get_string json key =
     (case strstr json (search_key key) of
        None \<Rightarrow> None
      | Some key_pos \<Rightarrow>
          (case strchr key_pos (CHR '':'') of
             None \<Rightarrow> None
           | Some colon \<Rightarrow>
               (case skip_whitespace (tl colon) of
                  [] \<Rightarrow> None
                | q # value_start \<Rightarrow>
                    if q \<noteq> dquote then None
                    else (case closing_quote value_start of
                            None \<Rightarrow> None
                          | Some result \<Rightarrow> Some (imc_unescape_json result)))))"

definition imc_json_get_int :: "string \<Rightarrow> string \<Rightarrow> int" where
  "imc_json_get_int json key =
     (case strstr json (search_key key) of
        None \<Rightarrow> 0
      | Some key_pos \<Rightarrow>
          (case strchr key_pos (CHR '':'') of
             None \<Rightarrow> 0
           | Some colon \<Rightarrow>
               (let value_start = skip_whitespace (tl colon);
                    number = takeWhile (\<lambda>c. isdigit c \<or> c = CHR ''-'' \<or> c = CHR ''+'') value_start;
                    value_str = (if length number \<ge> 32 then take 31 number else number)
                in atoi value_str)))"

definition imc_json_get_bool :: "string \<Rightarrow> string \<Rightarrow> bool" where
  "imc_json_get_bool json key =
     (case strstr json (search_key key) of
        None \<Rightarrow> False
      | Some key_pos \<Rightarrow>
          (case strchr key_pos (CHR '':'') of
             None \<Rightarrow> False
           | Some colon \<Rightarrow>
               (let value_start = skip_whitespace (tl colon)
                in if take 4 value_start = ''true'' then True
                   else if take 5 value_start = ''false'' then False
                   else False)))"

section \<open>JSON generation (json\_simple.c)\<close>

definition imc_json_create_object :: string where
  "imc_json_create_object = ''{''"

text \<open>\<^verbatim>\<open>imc_json_add_string\<close>: \<open>None\<close> when escaping the value ran over its buffer.\<close>

definition imc_json_add_string :: "string \<Rightarrow> string \<Rightarrow> string \<Rightarrow> string option" where
  "imc_json_add_string json key val =
     (let first_field = (json = ''{'')
      in case imc_escape_json val of
           None \<Rightarrow> None
         | Some escaped_value \<Rightarrow>
             Some (if first_field
                   then ''{'' @ [dquote] @ key @ [dquote] @ '':'' @ [dquote] @ escaped_value @ [dquote]
                   else json @ '','' @ [dquote] @ key @ [dquote] @ '':'' @ [dquote] @ escaped_value
                          @ [dquote]))"

definition imc_json_add_int :: "string \<Rightarrow> string \<Rightarrow> int \<Rightarrow> string" where
  "imc_json_add_int json key val =
     (let first_field = (json = ''{'')
      in if first_field then ''{'' @ [dquote] @ key @ [dquote] @ '':'' @ printf_d val
         else json @ '','' @ [dquote] @ key @ [dquote] @ '':'' @ printf_d val)"

definition imc_json_add_bool :: "string \<Rightarrow> string \<Rightarrow> bool \<Rightarrow> string" where
  "imc_json_add_bool json key val =
     (let first_field = (json = ''{'')
      in if first_field then ''{'' @ [dquote] @ key @ [dquote] @ '':'' @ (if val then ''true'' else ''false'')
         else json @ '','' @ [dquote] @ key @ [dquote] @ '':'' @ (if val then ''true'' else ''false''))"

definition imc_json_add_object :: "string \<Rightarrow> string \<Rightarrow> string \<Rightarrow> string" where
  "imc_json_add_object json key object =
     (let first_field = (json = ''{'')
      in if first_field then ''{'' @ [dquote] @ key @ [dquote] @ '':'' @ object
         else json @ '','' @ [dquote] @ key @ [dquote] @ '':'' @ object)"

definition imc_json_finalize :: "string \<Rightarrow> string" where
  "imc_json_finalize json = json @ ''}''"

section \<open>Message creation (mudvault\_mesh.c)\<close>

text \<open>
  \<^verbatim>\<open>imc_create_auth\<close> and \<^verbatim>\<open>imc_create_ping\<close>. The strings \<open>uuid\<close> and \<open>timestamp\<close> are what
  \<^verbatim>\<open>imc_generate_uuid\<close> and \<^verbatim>\<open>imc_get_timestamp\<close> return, \<open>now\<close> is \<^verbatim>\<open>time(NULL)\<close>. The
  nested objects are passed to \<^verbatim>\<open>imc_json_add_object\<close> as built, without
  \<^verbatim>\<open>imc_json_finalize\<close>, as in the source. The result is \<open>None\<close> when one of the escapes ran
  over its buffer.
\<close>

definition imc_create_auth :: "string \<Rightarrow> string \<Rightarrow> string option" where
  "imc_create_auth uuid timestamp =
     do {
       json \<leftarrow> imc_json_add_string imc_json_create_object ''version'' IMC_PROTOCOL_VERSION;
       json \<leftarrow> imc_json_add_string json ''id'' uuid;
       json \<leftarrow> imc_json_add_string json ''timestamp'' timestamp;
       json \<leftarrow> imc_json_add_string json ''type'' ''auth'';
       from_obj \<leftarrow> imc_json_add_string imc_json_create_object ''mud'' IMC_MUD_NAME;
       let json = imc_json_add_object json ''from'' from_obj;
       to_obj \<leftarrow> imc_json_add_string imc_json_create_object ''mud'' ''Gateway'';
       let json = imc_json_add_object json ''to'' to_obj;
       payload \<leftarrow> imc_json_add_string imc_json_create_object ''mudName'' IMC_MUD_NAME;
       payload \<leftarrow> imc_json_add_string payload ''token'' IMC_API_KEY;
       let json = imc_json_add_object json ''payload'' payload;
       let metadata = imc_json_add_int imc_json_create_object ''priority'' IMC_MESSAGE_PRIORITY;
       let metadata = imc_json_add_int metadata ''ttl'' IMC_MESSAGE_TTL;
       metadata \<leftarrow> imc_json_add_string metadata ''encoding'' ''utf-8'';
       metadata \<leftarrow> imc_json_add_string metadata ''language'' ''en'';
       let json = imc_json_add_object json ''metadata'' metadata;
       Some (imc_json_finalize json)
     }"

text \<open>The payload carries \<^verbatim>\<open>(int)time(NULL)\<close>.\<close>

definition imc_create_ping :: "string \<Rightarrow> string \<Rightarrow> int \<Rightarrow> string option" where
  "imc_create_ping uuid timestamp now =
     do {
       json \<leftarrow> imc_json_add_string imc_json_create_object ''version'' IMC_PROTOCOL_VERSION;
       json \<leftarrow> imc_json_add_string json ''id'' uuid;
       json \<leftarrow> imc_json_add_string json ''timestamp'' timestamp;
       json \<leftarrow> imc_json_add_string json ''type'' ''ping'';
       from_obj \<leftarrow> imc_json_add_string imc_json_create_object ''mud'' IMC_MUD_NAME;
       let json = imc_json_add_object json ''from'' from_obj;
       to_obj \<leftarrow> imc_json_add_string imc_json_create_object ''mud'' ''Gateway'';
       let json = imc_json_add_object json ''to'' to_obj;
       let payload = imc_json_add_int imc_json_create_object ''timestamp'' (to_int32 now);
       let json = imc_json_add_object json ''payload'' payload;
       let metadata = imc_json_add_int imc_json_create_object ''priority'' IMC_MESSAGE_PRIORITY;
       let metadata = imc_json_add_int metadata ''ttl'' IMC_MESSAGE_TTL;
       metadata \<leftarrow> imc_json_add_string metadata ''encoding'' ''utf-8'';
       metadata \<leftarrow> imc_json_add_string metadata ''language'' ''en'';
       let json = imc_json_add_object json ''metadata'' metadata;
       Some (imc_json_finalize json)
     }"

section \<open>SHA-1 and Base64\<close>

text \<open>
  Modelled from the spec: SHA-1 and Base64. \<^verbatim>\<open>calculate_accept_hash\<close> and \<^verbatim>\<open>base64_encode\<close> call
  OpenSSL (\<^verbatim>\<open>SHA1_Init\<close>, \<^verbatim>\<open>SHA1_Update\<close>, \<^verbatim>\<open>SHA1_Final\<close>, and the Base64 filter with
  \<^verbatim>\<open>BIO_FLAGS_BASE64_NO_NL\<close>), which is not part of the sources; the specification names the
  two functions. They are written out after FIPS 180-4 and RFC 4648. A 32-bit word is a natural
  number below \<open>2 ^ 32\<close>, a byte one below 256.
\<close>

type_synonym sha_state = "nat \<times> nat \<times> nat \<times> nat \<times> nat"

definition add32 :: "nat \<Rightarrow> nat \<Rightarrow> nat" where
  "add32 x y = (x + y) mod 4294967296"

definition rotl32 :: "nat \<Rightarrow> nat \<Rightarrow> nat" where
  "rotl32 n x = (x * 2 ^ n) mod 4294967296 + x div 2 ^ (32 - n)"

definition not32 :: "nat \<Rightarrow> nat" where
  "not32 x = 4294967295 - x"

definition sha1_f :: "nat \<Rightarrow> nat \<Rightarrow> nat \<Rightarrow> nat \<Rightarrow> nat" where
  "sha1_f t b c d =
     (if t < 20 then (b AND c) OR (not32 b AND d)
      else if t < 40 then b XOR c XOR d
      else if t < 60 then (b AND c) OR (b AND d) OR (c AND d)
      else b XOR c XOR d)"

definition sha1_k :: "nat \<Rightarrow> nat" where
  "sha1_k t = (if t < 20 then 0x5A827999 else if t < 40 then 0x6ED9EBA1
               else if t < 60 then 0x8F1BBCDC else 0xCA62C1D6)"

text \<open>The message schedule, most recent word first: each new word is made of four earlier ones.\<close>

fun sched_word :: "nat list \<Rightarrow> nat" where
  "sched_word (v1 # v2 # v3 # v4 # v5 # v6 # v7 # v8 # v9 # v10 # v11 # v12 # v13 # v14 # v15 # v16 # r) =
     rotl32 1 (v3 XOR v8 XOR v14 XOR v16)"
| "sched_word r = 0"

fun sha1_schedule :: "nat \<Rightarrow> nat list \<Rightarrow> nat list" where
  "sha1_schedule 0 r = r"
| "sha1_schedule (Suc n) r = sha1_schedule n (sched_word r # r)"

fun sha1_round :: "nat \<Rightarrow> sha_state \<Rightarrow> nat \<Rightarrow> sha_state" where
  "sha1_round t (a, b, c, d, e) w =
     (add32 (add32 (add32 (add32 (rotl32 5 a) (sha1_f t b c d)) e) (sha1_k t)) w, a, rotl32 30 b, c, d)"

fun sha1_rounds :: "nat \<Rightarrow> sha_state \<Rightarrow> nat list \<Rightarrow> sha_state" where
  "sha1_rounds t s [] = s"
| "sha1_rounds t s (w # ws) = sha1_rounds (t + 1) (sha1_round t s w) ws"

fun sha1_add :: "sha_state \<Rightarrow> sha_state \<Rightarrow> sha_state" where
  "sha1_add (h0, h1, h2, h3, h4) (a, b, c, d, e) =
     (add32 h0 a, add32 h1 b, add32 h2 c, add32 h3 d, add32 h4 e)"

definition sha1_block :: "sha_state \<Rightarrow> nat list \<Rightarrow> sha_state" where
  "sha1_block h blk = sha1_add h (sha1_rounds 0 h (rev (sha1_schedule 64 (rev blk))))"

fun be_words :: "nat list \<Rightarrow> nat list" where
  "be_words (a # b # c # d # r) = (((a * 256 + b) * 256 + c) * 256 + d) # be_words r"
| "be_words r = []"

fun sha1_blocks :: "sha_state \<Rightarrow> nat list \<Rightarrow> sha_state" where
  "sha1_blocks h [] = h"
| "sha1_blocks h (w # ws) = sha1_blocks (sha1_block h (take 16 (w # ws))) (drop 16 (w # ws))"

definition be_bytes4 :: "nat \<Rightarrow> nat list" where
  "be_bytes4 x = [x div 16777216 mod 256, x div 65536 mod 256, x div 256 mod 256, x mod 256]"

definition sha1_pad :: "nat list \<Rightarrow> nat list" where
  "sha1_pad m =
     m @ [128] @ replicate ((119 - length m mod 64) mod 64) 0
       @ be_bytes4 (8 * length m div 4294967296) @ be_bytes4 (8 * length m mod 4294967296)"

fun sha1_digest :: "sha_state \<Rightarrow> nat list" where
  "sha1_digest (h0, h1, h2, h3, h4) =
     be_bytes4 h0 @ be_bytes4 h1 @ be_bytes4 h2 @ be_bytes4 h3 @ be_bytes4 h4"

definition sha1 :: "nat list \<Rightarrow> nat list" where
  "sha1 m = sha1_digest (sha1_blocks (0x67452301, 0xEFCDAB89, 0x98BADCFE, 0x10325476, 0xC3D2E1F0)
                          (be_words (sha1_pad m)))"

text \<open>Base64 with padding and without line breaks.\<close>

definition base64_char :: "nat \<Rightarrow> char" where
  "base64_char n =
     (if n < 26 then char_of (65 + n)
      else if n < 52 then char_of (71 + n)
      else if n < 62 then char_of (n - 4)
      else if n = 62 then CHR ''+'' else CHR ''/'')"

fun base64_encode :: "nat list \<Rightarrow> string" where
  "base64_encode [] = []"
| "base64_encode [a] = [base64_char (a div 4), base64_char (a mod 4 * 16), CHR ''='', CHR ''='']"
| "base64_encode [a, b] =
     [base64_char (a div 4), base64_char (a mod 4 * 16 + b div 16), base64_char (b mod 16 * 4), CHR ''='']"
| "base64_encode (a # b # c # r) =
     [base64_char (a div 4), base64_char (a mod 4 * 16 + b div 16),
      base64_char (b mod 16 * 4 + c div 64), base64_char (c mod 64)] @ base64_encode r"

section \<open>Accept hash (websocket.c)\<close>

definition WS_MAGIC_STRING :: string where
  "WS_MAGIC_STRING = ''258EAFA5-E914-47DA-95CA-C5AB0DC85B11''"

definition calculate_accept_hash :: "string \<Rightarrow> string" where
  "calculate_accept_hash key = base64_encode (sha1 (map of_char (key @ WS_MAGIC_STRING)))"

section \<open>WebSocket handshake (websocket.c)\<close>

text \<open>
  What \<^verbatim>\<open>imc_websocket_handshake\<close> meets: the sixteen values \<^verbatim>\<open>rand() % 256\<close> of the key, the
  results of \<^verbatim>\<open>send\<close> and \<^verbatim>\<open>select\<close>, and the bytes \<^verbatim>\<open>recv\<close> stored (\<open>None\<close> when it returned
  0 or less). The request text plays no part in the result and is left out.
\<close>

record handshake_io =
  rand_bytes :: "nat list"
  bytes_sent :: int
  select_result :: int
  received :: "string option"

definition generate_websocket_key :: "nat list \<Rightarrow> string" where
  "generate_websocket_key key = base64_encode key"

text \<open>
  The response buffer is zeroed and at most 2047 bytes are read into it, so the response is
  read as a C string.
\<close>

definition imc_websocket_handshake :: "handshake_io \<Rightarrow> bool" where
  "imc_websocket_handshake hio =
     (let key = generate_websocket_key (rand_bytes hio)
      in if bytes_sent hio < 0 then False
         else if select_result hio \<le> 0 then False
         else case received hio of
                None \<Rightarrow> False
              | Some bytes \<Rightarrow>
                  (let response = c_str (take 2047 bytes)
                   in if take 12 response \<noteq> ''HTTP/1.1 101'' then False
                      else (let expected_hash = calculate_accept_hash key;
                                line = ''Sec-WebSocket-Accept: '' @ expected_hash
                            in strstr response line \<noteq> None)))"

section \<open>Connection management (mudvault\_mesh.c)\<close>

text \<open>
  What one call into the client meets outside it. \<open>time_io\<close> is the value \<^verbatim>\<open>time(NULL)\<close>
  returns inside \<^verbatim>\<open>imc_connect\<close>, \<^verbatim>\<open>imc_disconnect\<close> and the handlers; \<open>connect_result\<close> and
  \<open>handshake_result\<close> are the values \<^verbatim>\<open>imc_websocket_connect\<close> and
  \<^verbatim>\<open>imc_websocket_handshake\<close> return; \<open>send_ok k\<close> tells whether the \<open>k\<close>-th call of
  \<^verbatim>\<open>imc_websocket_send\<close> returns a non-negative value; \<open>recv_result\<close> is the outcome of
  \<^verbatim>\<open>imc_websocket_recv\<close>; \<open>uuid\<close> and \<open>timestamp\<close> are the strings \<^verbatim>\<open>imc_generate_uuid\<close> and
  \<^verbatim>\<open>imc_get_timestamp\<close> return. \<open>create_pong\<close> stands for \<^verbatim>\<open>imc_create_pong\<close>, which is
  declared in openimc.h and defined nowhere in the sources (\<open>None\<close> is NULL).
\<close>

datatype recv_result =
  Recv_error          \<comment> \<open>\<^verbatim>\<open>bytes_read < 0\<close>, \<^verbatim>\<open>errno\<close> neither EAGAIN nor EWOULDBLOCK\<close>
  | Recv_nothing      \<comment> \<open>\<^verbatim>\<open>bytes_read <= 0\<close> otherwise\<close>
  | Recv_data string  \<comment> \<open>\<^verbatim>\<open>bytes_read > 0\<close>: the bytes stored at \<^verbatim>\<open>buffer + buflen\<close>\<close>

record io =
  time_io :: int
  connect_result :: int
  handshake_result :: bool
  send_ok :: "nat \<Rightarrow> bool"
  recv_result :: recv_result
  uuid :: string
  timestamp :: string
  create_pong :: "int \<Rightarrow> string option"

text \<open>An assignment through \<^verbatim>\<open>imc_data->\<close>, made where the pointer is known not to be NULL.\<close>

definition upd :: "(IMC_DATA \<Rightarrow> IMC_DATA) \<Rightarrow> globals \<Rightarrow> globals" where
  "upd f g = g\<lparr>imc_data := map_option f (imc_data g)\<rparr>"

definition imc_disconnect :: "io \<Rightarrow> globals \<Rightarrow> globals" where
  "imc_disconnect env g =
     (case imc_data g of
        None \<Rightarrow> g
      | Some d \<Rightarrow>
          g\<lparr>imc_data := Some (d\<lparr>socket := (if socket d \<ge> 0 then - 1 else socket d),
                                 state := IMC_DISCONNECTED,
                                 buffer := [],
                                 connect_time := time_io env\<rparr>)\<rparr>)"

definition imc_send_message :: "io \<Rightarrow> string \<Rightarrow> globals \<Rightarrow> globals" where
  "imc_send_message env json g =
     (case imc_data g of
        None \<Rightarrow> g
      | Some d \<Rightarrow>
          if socket d < 0 then g
          else if send_ok env (nsent g) then g\<lparr>nsent := nsent g + 1\<rparr>
          else imc_disconnect env (g\<lparr>nsent := nsent g + 1\<rparr>))"

text \<open>
  A message as its creation function leaves it. The creation functions return a pointer that
  is not NULL also when an escape ran over its buffer; the store is then recorded, and the
  text that was written is not known (it is taken empty; no function below reads it).
\<close>

definition message_text :: "string option \<Rightarrow> string" where
  "message_text msg = (case msg of None \<Rightarrow> [] | Some json \<Rightarrow> json)"

definition message_built :: "string option \<Rightarrow> globals \<Rightarrow> globals" where
  "message_built msg g = (case msg of None \<Rightarrow> g\<lparr>bad_store := True\<rparr> | Some json \<Rightarrow> g)"

definition imc_authenticate :: "io \<Rightarrow> globals \<Rightarrow> bool \<times> globals" where
  "imc_authenticate env g =
     (case imc_data g of
        None \<Rightarrow> (False, g)
      | Some d \<Rightarrow>
          if socket d < 0 then (False, g)
          else (let auth_msg = imc_create_auth (uuid env) (timestamp env);
                    g1 = imc_send_message env (message_text auth_msg) (message_built auth_msg g)
                in (True, upd (\<lambda>d. d\<lparr>state := IMC_AUTHENTICATING\<rparr>) g1)))"

definition imc_connect :: "io \<Rightarrow> globals \<Rightarrow> int \<times> globals" where
  "imc_connect env g =
     (case imc_data g of
        None \<Rightarrow> (IMC_ERR_NO_CONNECTION, g)
      | Some d \<Rightarrow>
          (let g1 = upd (\<lambda>d. d\<lparr>socket := connect_result env\<rparr>) (g\<lparr>nconnect := nconnect g + 1\<rparr>)
           in if connect_result env < 0
              then (IMC_ERR_NETWORK, upd (\<lambda>d. d\<lparr>state := IMC_DISCONNECTED\<rparr>) g1)
              else if \<not> handshake_result env
              then (IMC_ERR_NETWORK, upd (\<lambda>d. d\<lparr>socket := - 1, state := IMC_DISCONNECTED\<rparr>) g1)
              else (let g2 = upd (\<lambda>d. d\<lparr>state := IMC_CONNECTED, connect_time := time_io env,
                                           buffer := []\<rparr>) g1;
                        (ok, g3) = imc_authenticate env g2
                    in if \<not> ok then (IMC_ERR_AUTH_FAILED, imc_disconnect env g3)
                       else (IMC_ERR_NONE, g3))))"

definition imc_reconnect :: "io \<Rightarrow> globals \<Rightarrow> globals" where
  "imc_reconnect env g =
     (case imc_data g of
        None \<Rightarrow> g
      | Some d \<Rightarrow>
          (let g1 = upd (\<lambda>d. d\<lparr>reconnect_attempts := reconnect_attempts d + 1\<rparr>) g
           in if reconnect_attempts d + 1 > IMC_MAX_RECONNECTS then g1
              else (let (rc, g2) = imc_connect env g1
                    in if rc \<ge> 0 then upd (\<lambda>d. d\<lparr>reconnect_attempts := 0\<rparr>) g2 else g2)))"

section \<open>Message handling (mudvault\_mesh.c)\<close>

text \<open>
  \<^verbatim>\<open>imc_handle_message\<close>. Tells and channel messages are delivered to local players and
  appended to the history; neither touches the connection data, so these branches leave the
  globals as they are. The pong handler stores through \<^verbatim>\<open>imc_data\<close> without a NULL test.
\<close>

definition imc_handle_message ::
  "io \<Rightarrow> imc_msg_type_t \<Rightarrow> string option \<Rightarrow> string option \<Rightarrow> string option \<Rightarrow> string option
     \<Rightarrow> string \<Rightarrow> globals \<Rightarrow> globals" where
  "imc_handle_message env type from_mud from_user to_mud to_user payload g =
     (case type of
        IMC_MSG_PING \<Rightarrow>
          (let timestamp' = imc_json_get_int payload ''payload.timestamp''
           in case create_pong env timestamp' of
                None \<Rightarrow> g
              | Some pong \<Rightarrow> imc_send_message env pong g)
      | IMC_MSG_PONG \<Rightarrow> upd (\<lambda>d. d\<lparr>last_pong := time_io env\<rparr>) g
      | _ \<Rightarrow> g)"

definition msg_type_of :: "string \<Rightarrow> imc_msg_type_t option" where
  "msg_type_of type_str =
     (if type_str = ''tell'' then Some IMC_MSG_TELL
      else if type_str = ''emote'' then Some IMC_MSG_EMOTE
      else if type_str = ''emoteto'' then Some IMC_MSG_EMOTETO
      else if type_str = ''channel'' then Some IMC_MSG_CHANNEL
      else if type_str = ''who'' then Some IMC_MSG_WHO
      else if type_str = ''finger'' then Some IMC_MSG_FINGER
      else if type_str = ''locate'' then Some IMC_MSG_LOCATE
      else if type_str = ''presence'' then Some IMC_MSG_PRESENCE
      else if type_str = ''auth'' then Some IMC_MSG_AUTH
      else if type_str = ''ping'' then Some IMC_MSG_PING
      else if type_str = ''pong'' then Some IMC_MSG_PONG
      else if type_str = ''error'' then Some IMC_MSG_ERROR
      else None)"

definition imc_parse_message :: "io \<Rightarrow> string \<Rightarrow> globals \<Rightarrow> bool \<times> globals" where
  "imc_parse_message env json g =
     (if json = [] then (False, g)
      else case imc_json_get_string json ''type'' of
             None \<Rightarrow> (False, g)
           | Some type_str \<Rightarrow>
               (case msg_type_of type_str of
                  None \<Rightarrow> (False, g)
                | Some type \<Rightarrow>
                    (let from_mud = imc_json_get_string json ''from.mud'';
                         from_user = imc_json_get_string json ''from.user'';
                         to_mud = imc_json_get_string json ''to.mud'';
                         to_user = imc_json_get_string json ''to.user''
                     in (True, imc_handle_message env type from_mud from_user to_mud to_user json g))))"

text \<open>
  The buffer cut at its newlines: the complete lines in order, and what follows the last
  newline.
\<close>

fun split_lines :: "string \<Rightarrow> string \<Rightarrow> string list \<times> string" where
  "split_lines cur [] = ([], cur)"
| "split_lines cur (c # cs) =
     (if c = CHR 0x0A then (case split_lines [] cs of (ls, rest) \<Rightarrow> (cur # ls, rest))
      else split_lines (cur @ [c]) cs)"

fun process_lines :: "io \<Rightarrow> string list \<Rightarrow> globals \<Rightarrow> globals" where
  "process_lines env [] g = g"
| "process_lines env (line # ls) g =
     process_lines env ls (if line \<noteq> [] then snd (imc_parse_message env line g) else g)"

text \<open>
  \<^verbatim>\<open>imc_process_input\<close>. The received bytes are appended and the buffer is read as a C
  string: \<^verbatim>\<open>strchr\<close> finds the newlines before the first NUL byte only, so the lines parsed
  are those of \<open>c_str buf\<close>. \<open>consumed\<close> is \<^verbatim>\<open>line_start - buffer\<close> after the loop; the bytes from
  there on, a NUL and what follows it included, are moved to the front. \<^verbatim>\<open>remaining\<close> is
  computed from the \<^verbatim>\<open>buflen\<close> of that moment: after a disconnect during the loop it is 0,
  \<^verbatim>\<open>remaining\<close> is negative and the terminating NUL is stored at a negative index.
\<close>

definition imc_process_input :: "io \<Rightarrow> globals \<Rightarrow> globals" where
  "imc_process_input env g =
     (case imc_data g of
        None \<Rightarrow> g
      | Some d \<Rightarrow>
          if socket d < 0 then g
          else (case recv_result env of
                  Recv_error \<Rightarrow> imc_disconnect env g
                | Recv_nothing \<Rightarrow> g
                | Recv_data bytes \<Rightarrow>
                    (let buf = buffer d @ bytes;
                         lines = fst (split_lines [] (c_str buf));
                         consumed = length (c_str buf) - length (snd (split_lines [] (c_str buf)));
                         g1 = process_lines env lines (upd (\<lambda>d. d\<lparr>buffer := buf\<rparr>) g)
                     in if lines = [] then g1
                        else (case imc_data g1 of
                                None \<Rightarrow> g1
                              | Some d1 \<Rightarrow>
                                  (let remaining = int (length (buffer d1)) - int consumed
                                   in if remaining < 0 then g1\<lparr>bad_store := True\<rparr>
                                      else upd (\<lambda>d. d\<lparr>buffer := drop consumed buf\<rparr>) g1)))))"

section \<open>Main loop (mudvault\_mesh.c)\<close>

text \<open>\<^verbatim>\<open>imc_loop\<close>; \<open>now\<close> is the value \<^verbatim>\<open>time(NULL)\<close> returns on entry.\<close>

definition imc_loop :: "io \<Rightarrow> int \<Rightarrow> globals \<Rightarrow> globals" where
  "imc_loop env now g =
     (if \<not> imc_active g then g
      else case imc_data g of
        None \<Rightarrow> g
      | Some d \<Rightarrow>
          if now = last_loop g then g
          else
            (let g1 = g\<lparr>last_loop := now\<rparr>;
                 g2 =
                   (case state d of
                      IMC_DISCONNECTED \<Rightarrow>
                        if now - connect_time d > IMC_RECONNECT_DELAY then imc_reconnect env g1 else g1
                    | IMC_CONNECTING \<Rightarrow>
                        if now - connect_time d > IMC_TIMEOUT then imc_disconnect env g1 else g1
                    | IMC_AUTHENTICATING \<Rightarrow>
                        if now - connect_time d > IMC_TIMEOUT then imc_disconnect env g1 else g1
                    | IMC_AUTHENTICATED \<Rightarrow>
                        (let g3 = imc_process_input env g1;
                             g4 = (case imc_data g3 of
                                     None \<Rightarrow> g3
                                   | Some d3 \<Rightarrow>
                                       if now - last_ping d3 > IMC_PING_INTERVAL
                                       then (let ping = imc_create_ping (uuid env) (timestamp env)
                                                               (time_io env)
                                             in upd (\<lambda>d. d\<lparr>last_ping := now\<rparr>)
                                                  (imc_send_message env (message_text ping)
                                                     (message_built ping g3)))
                                       else g3)
                         in case imc_data g4 of
                              None \<Rightarrow> g4
                            | Some d4 \<Rightarrow>
                                if last_pong d4 > 0 \<and> now - last_pong d4 > IMC_PING_INTERVAL * 2
                                then imc_disconnect env g4 else g4)
                    | _ \<Rightarrow> g1)
             in if now - last_rate_reset g2 \<ge> 60
                then (imc_reset_rate_limits g2)\<lparr>last_rate_reset := now\<rparr>
                else g2))"

text \<open>A run of polls, each with its clock value and what it meets.\<close>

fun imc_loop_run :: "(io \<times> int) list \<Rightarrow> globals \<Rightarrow> globals" where
  "imc_loop_run [] g = g"
| "imc_loop_run ((env, now) # ps) g = imc_loop_run ps (imc_loop env now g)"

section \<open>Notions used to state the properties\<close>

text \<open>The flags a history of calls returns to the calls made with one identifier.\<close>

definition outcomes_of :: "string \<Rightarrow> (string \<times> string \<times> int) list \<Rightarrow> globals \<Rightarrow> bool list" where
  "outcomes_of who cs g =
     map snd (filter (\<lambda>(c, ok). fst (snd c) = who) (zip cs (fst (rate_limit_calls cs g))))"

text \<open>A C string of 7-bit ASCII: every byte is between 1 and 127.\<close>

definition ascii_text :: "string \<Rightarrow> bool" where
  "ascii_text s = list_all (\<lambda>c. 0 < (of_char c :: nat) \<and> (of_char c :: nat) < 128) s"

text \<open>
  The text a getter reads a value from: what follows the first occurrence of the quoted key
  and its colon, after white space; \<open>None\<close> when the quoted key does not occur, which is
  what a missing key is to the getters.
\<close>

definition value_start_of :: "string \<Rightarrow> string \<Rightarrow> string option" where
  "value_start_of json key =
     (case strstr json (search_key key) of
        None \<Rightarrow> None
      | Some key_pos \<Rightarrow> map_option (\<lambda>colon. skip_whitespace (tl colon)) (strchr key_pos (CHR '':'')))"

text \<open>A value text is numeric when it starts with a digit, or with a sign and then a digit.\<close>

definition numeric_value :: "string \<Rightarrow> bool" where
  "numeric_value v =
     (case v of
        [] \<Rightarrow> False
      | c # cs \<Rightarrow> isdigit c \<or> ((c = CHR ''-'' \<or> c = CHR ''+'') \<and> cs \<noteq> [] \<and> isdigit (hd cs)))"

definition number_char :: "char \<Rightarrow> bool" where
  "number_char c = (isdigit c \<or> c = CHR ''-'' \<or> c = CHR ''+'')"

text \<open>The inbound tell envelope of the specification's first end-to-end scenario.\<close>

definition tell_envelope :: string where
  \<open>tell_envelope = ''{"version":"1.0","id":"a1","timestamp":"2024-01-01T00:00:00Z","type":"tell","from":{"mud":"Beta","user":"Alice"},"to":{"mud":"Alpha","user":"Bob"},"payload":{"message":"hi"},"metadata":{"priority":5,"ttl":300,"encoding":"utf-8","language":"en"}}''\<close>

text \<open>Readings of the connection data; \<open>None\<close> when \<^verbatim>\<open>imc_data\<close> is NULL.\<close>

definition state_of :: "globals \<Rightarrow> imc_state_t option" where
  "state_of g = map_option state (imc_data g)"

definition last_pong_of :: "globals \<Rightarrow> int option" where
  "last_pong_of g = map_option last_pong (imc_data g)"

definition attempts_of :: "globals \<Rightarrow> int option" where
  "attempts_of g = map_option reconnect_attempts (imc_data g)"

text \<open>The lines \<^verbatim>\<open>imc_process_input\<close> parses in a poll, and whether one of them is a pong.\<close>

definition received_lines :: "io \<Rightarrow> IMC_DATA \<Rightarrow> string list" where
  "received_lines env d =
     (case recv_result env of
        Recv_data bytes \<Rightarrow> fst (split_lines [] (c_str (buffer d @ bytes)))
      | _ \<Rightarrow> [])"

definition pong_line :: "string \<Rightarrow> bool" where
  "pong_line line = (imc_json_get_string line ''type'' = Some ''pong'')"

definition pong_received :: "io \<Rightarrow> IMC_DATA \<Rightarrow> bool" where
  "pong_received env d = list_ex pong_line (received_lines env d)"


text \<open>
  Environments of a poll at time \<open>t\<close>: a gateway that cannot be reached, and one that accepts
  the connection and the handshake; nothing is received, every send succeeds.
\<close>

definition gateway_down :: "int \<Rightarrow> io" where
  "gateway_down t =
     \<lparr> time_io = t, connect_result = - 1, handshake_result = False, send_ok = (\<lambda>k. True),
       recv_result = Recv_nothing, uuid = ''a1'', timestamp = ''2024-01-01T00:00:00Z'',
       create_pong = (\<lambda>ts. None) \<rparr>"

definition gateway_up :: "int \<Rightarrow> io" where
  "gateway_up t =
     \<lparr> time_io = t, connect_result = 3, handshake_result = True, send_ok = (\<lambda>k. True),
       recv_result = Recv_nothing, uuid = ''a1'', timestamp = ''2024-01-01T00:00:00Z'',
       create_pong = (\<lambda>ts. None) \<rparr>"

text \<open>
  Client states: authenticated with the given time of the last pong, and disconnected at
  time 0 after the given number of failed reconnects.
\<close>

definition authenticated_data :: "int \<Rightarrow> IMC_DATA" where
  "authenticated_data pong =
     \<lparr> socket = 3, state = IMC_AUTHENTICATED, buffer = [], last_ping = 0, last_pong = pong,
       connect_time = 0, reconnect_attempts = 0 \<rparr>"

definition authenticated_client :: "int \<Rightarrow> globals" where
  "authenticated_client pong =
     initial_globals \<lparr> imc_data := Some (authenticated_data pong), imc_active := True \<rparr>"

definition disconnected_data :: "int \<Rightarrow> IMC_DATA" where
  "disconnected_data failures =
     \<lparr> socket = - 1, state = IMC_DISCONNECTED, buffer = [], last_ping = 0, last_pong = 0,
       connect_time = 0, reconnect_attempts = failures \<rparr>"

definition disconnected_client :: "int \<Rightarrow> globals" where
  "disconnected_client failures =
     initial_globals \<lparr> imc_data := Some (disconnected_data failures), imc_active := True \<rparr>"

text \<open>A poll at time \<open>t\<close> in which the gateway delivers one line of text.\<close>

definition gateway_delivers :: "string \<Rightarrow> int \<Rightarrow> io" where
  "gateway_delivers line t = (gateway_up t) \<lparr> recv_result := Recv_data (line @ [CHR 0x0A]) \<rparr>"

text \<open>
  An HTTP response as the specification reads it: the status code is the second word of the
  status line, and the value of a header is the text between the header's name with its
  colon and space, at the start of a line, and the end of that line.
\<close>

abbreviation crlf :: string where "crlf \<equiv> [CHR 0x0D, CHR 0x0A]"

definition http_status :: "string \<Rightarrow> string" where
  "http_status response =
     takeWhile (\<lambda>c. c \<noteq> CHR '' '' \<and> c \<noteq> CHR 0x0D)
       (drop 1 (dropWhile (\<lambda>c. c \<noteq> CHR '' '') response))"

definition header_value :: "string \<Rightarrow> string \<Rightarrow> string option" where
  "header_value name response =
     map_option (\<lambda>p. takeWhile (\<lambda>c. c \<noteq> CHR 0x0D) (drop (length name + 4) p))
       (strstr response (crlf @ name @ '': ''))"

text \<open>
  A handshake with the key of RFC 6455 (the bytes of \<open>the sample nonce\<close>) and a response
  with the given value of the accept header.
\<close>

definition sample_handshake :: "string \<Rightarrow> handshake_io" where
  "sample_handshake accept =
     \<lparr> rand_bytes = map of_char ''the sample nonce'', bytes_sent = 151, select_result = 1,
       received = Some (''HTTP/1.1 101 Switching Protocols'' @ crlf @ ''Upgrade: websocket'' @ crlf
                        @ ''Connection: Upgrade'' @ crlf @ ''Sec-WebSocket-Accept: '' @ accept
                        @ crlf @ crlf) \<rparr>"

text \<open>Three error envelopes: without a code, with a code that is text, with the code 0.\<close>

definition error_no_code :: string where
  \<open>error_no_code = ''{"type":"error","payload":{"message":"x"}}''\<close>

definition error_text_code :: string where
  \<open>error_text_code = ''{"type":"error","payload":{"code":"E42","message":"x"}}''\<close>

definition error_zero_code :: string where
  \<open>error_zero_code = ''{"type":"error","payload":{"code":0,"message":"x"}}''\<close>

section \<open>Rate limiter: properties\<close>

text \<open>
  C10. For every operation type other than tell, channel and who, and for every identifier,
  clock value and prior state of the limiter, \<^verbatim>\<open>imc_check_rate_limit\<close> returns TRUE and
  leaves every counter and window start unchanged.
\<close>

theorem untracked_type_never_limited:
  assumes "type \<noteq> ''tell''" and "type \<noteq> ''channel''" and "type \<noteq> ''who''"
  shows "imc_check_rate_limit type identifier now g = (True, g)"
  using assms by (simp add: imc_check_rate_limit_def)

theorem untracked_type_never_limited_witness:
  "''emote'' \<noteq> ''tell'' \<and> ''emote'' \<noteq> ''channel'' \<and> ''emote'' \<noteq> ''who''
   \<and> imc_check_rate_limit ''emote'' ''Bob'' 7 initial_globals = (True, initial_globals)"
  using untracked_type_never_limited [of "''emote''" "''Bob''" 7 initial_globals]
  by simp

text \<open>
  C2. Twenty tells by one user in one second are all accepted and a twenty-first in that same
  second is refused. The window, however, restarts whenever the clock shows a second other
  than the one stored: the twenty-first tell, made one second later and well inside the same
  60-second window, is accepted.
\<close>

theorem tell_window_restarts_each_second:
  "fst (rate_limit_calls (replicate 20 (''tell'', ''Bob'', 0)) initial_globals) = replicate 20 True
   \<and> fst (imc_check_rate_limit ''tell'' ''Bob'' 0
            (snd (rate_limit_calls (replicate 20 (''tell'', ''Bob'', 0)) initial_globals))) = False
   \<and> fst (imc_check_rate_limit ''tell'' ''Bob'' 1
            (snd (rate_limit_calls (replicate 20 (''tell'', ''Bob'', 0)) initial_globals))) = True"
  by code_simp

text \<open>
  Every tell made in a second other than the stored window start is accepted, whatever the
  count was.
\<close>

lemma tell_accepted_in_new_second:
  "now \<noteq> last_tell_time g \<Longrightarrow> fst (imc_check_rate_limit ''tell'' identifier now g) = True"
  by (simp add: imc_check_rate_limit_def IMC_MAX_TELLS_MIN_def)

text \<open>
  C7, as stated: the calls made with identifier A do not change what later calls with
  identifier B return. It fails: after twenty tells by Alice, Bob's tell in the same second is
  refused, and with Alice's calls removed from the history it is accepted.
\<close>

theorem rate_limit_interference_counterexample:
  "outcomes_of ''Bob'' (replicate 20 (''tell'', ''Alice'', 5) @ [(''tell'', ''Bob'', 5)])
       initial_globals = [False]
   \<and> outcomes_of ''Bob''
         (filter (\<lambda>c. fst (snd c) \<noteq> ''Alice'')
            (replicate 20 (''tell'', ''Alice'', 5) @ [(''tell'', ''Bob'', 5)]))
         initial_globals = [True]"
  by code_simp

text \<open>
  C7, amended. The counters are kept per operation type and shared by all identifiers:
  \<^verbatim>\<open>imc_check_rate_limit\<close> does not read its identifier, so a history of calls returns the
  same flags and leaves the same counters however its identifiers are renamed.
\<close>

theorem rate_limit_ignores_identifier:
  "rate_limit_calls (map (\<lambda>(type, identifier, now). (type, rename identifier, now)) cs) g
   = rate_limit_calls cs g"
  by (induction cs arbitrary: g) (auto simp: imc_check_rate_limit_def split: prod.splits)

section \<open>JSON: properties\<close>

text \<open>
  C1. The lookup of a dotted key is to descend into nested objects. On the tell envelope of
  the specification's first scenario the code returns NULL for \<open>from.mud\<close>, \<open>from.user\<close>,
  \<open>to.user\<close> and \<open>payload.message\<close>: it searches the text for the quoted dotted key itself.
  The plain key \<open>mud\<close> finds the first member of that name at any depth.
\<close>

theorem dotted_key_not_resolved:
  "imc_json_get_string tell_envelope ''from.mud'' = None
   \<and> imc_json_get_string tell_envelope ''from.user'' = None
   \<and> imc_json_get_string tell_envelope ''to.user'' = None
   \<and> imc_json_get_string tell_envelope ''payload.message'' = None
   \<and> imc_json_get_string tell_envelope ''mud'' = Some ''Beta''"
  by code_simp

subsection \<open>Integer fields\<close>

lemma get_int_value:
  "imc_json_get_int json key =
     (case value_start_of json key of
        None \<Rightarrow> 0
      | Some v \<Rightarrow> atoi (if length (takeWhile number_char v) \<ge> 32
                        then take 31 (takeWhile number_char v) else takeWhile number_char v))"
proof -
  have "(\<lambda>c. isdigit c \<or> c = CHR ''-'' \<or> c = CHR ''+'') = number_char"
    by (rule ext) (simp add: number_char_def)
  then show ?thesis
    by (simp add: imc_json_get_int_def value_start_of_def Let_def split: option.splits)
qed

lemma to_int32_zero [simp]: "to_int32 (long_range 0) = 0"
  by (simp add: to_int32_def long_range_def)

text \<open>
  A number that does not fit 32 bits is cut to its low 32 bits, and a time after the year
  2038 is negative as an \<^verbatim>\<open>int\<close>.
\<close>

lemma get_int_wraps:
  \<open>imc_json_get_int ''{"code":99999999999}'' ''code'' = 1215752191
   \<and> imc_json_get_int ''{"code":-99999999999999999999}'' ''code'' = 0
   \<and> imc_json_get_int ''{"code":404}'' ''code'' = 404
   \<and> to_int32 2147483648 = - 2147483648\<close>
  by code_simp

lemma number_char_not_space: "number_char c \<Longrightarrow> \<not> isspace c"
  by (auto simp: isspace_def isdigit_def number_char_def)

lemma non_numeric_zero:
  assumes "\<not> numeric_value v"
  shows "atoi (if length (takeWhile number_char v) \<ge> 32
               then take 31 (takeWhile number_char v) else takeWhile number_char v) = 0"
    (is "atoi ?s = 0")
proof (cases v)
  case Nil
  then show ?thesis by (simp add: atoi_def)
next
  case (Cons c cs)
  show ?thesis
  proof (cases "number_char c")
    case False
    with Cons show ?thesis by (simp add: atoi_def)
  next
    case True
    with assms Cons have sgn: "c = CHR ''-'' \<or> c = CHR ''+''" and nd: "cs = [] \<or> \<not> isdigit (hd cs)"
      by (auto simp: numeric_value_def number_char_def)
    from True Cons have n: "takeWhile number_char v = c # takeWhile number_char cs" by simp
    define t where "t = takeWhile number_char cs"
    define r where "r = (if 32 \<le> length (c # t) then take 30 t else t)"
    have s: "?s = c # r" unfolding n r_def t_def by (simp add: take_Cons')
    have t: "t = [] \<or> \<not> isdigit (hd t)"
    proof (cases cs)
      case Nil then show ?thesis by (simp add: t_def)
    next
      case c2: (Cons d ds)
      with nd have "\<not> isdigit d" by simp
      then show ?thesis unfolding t_def c2 by simp
    qed
    have "r = [] \<or> \<not> isdigit (hd r)"
      using t unfolding r_def by (cases t) auto
    then have "takeWhile isdigit r = []" by (cases r) auto
    with sgn number_char_not_space[OF True] show ?thesis
      unfolding s by (auto simp: atoi_def Let_def)
  qed
qed

text \<open>
  C9. When the quoted key does not occur in the document, or occurs with a value that is not
  numeric, \<^verbatim>\<open>imc_json_get_int\<close> returns 0, the value it also returns for a field that is 0.
\<close>

theorem get_int_zero_when_absent_or_not_numeric:
  assumes "value_start_of json key = None
           \<or> (\<exists>v. value_start_of json key = Some v \<and> \<not> numeric_value v)"
  shows "imc_json_get_int json key = 0"
  using assms non_numeric_zero by (auto simp: get_int_value)


theorem get_int_zero_when_absent_or_not_numeric_witness:
  "value_start_of error_no_code ''code'' = None
   \<and> imc_json_get_int error_no_code ''code'' = 0
   \<and> (\<exists>v. value_start_of error_text_code ''code'' = Some v \<and> \<not> numeric_value v)
   \<and> imc_json_get_int error_text_code ''code'' = 0
   \<and> imc_json_get_int error_zero_code ''code'' = 0"
proof -
  have a: "value_start_of error_no_code ''code'' = None" by code_simp
  have b0: \<open>value_start_of error_text_code ''code'' = Some ''"E42","message":"x"}}''\<close>
    by code_simp
  have b1: \<open>\<not> numeric_value ''"E42","message":"x"}}''\<close>
    by code_simp
  from b0 b1 have b: "\<exists>v. value_start_of error_text_code ''code'' = Some v \<and> \<not> numeric_value v"
    by blast
  have "imc_json_get_int error_no_code ''code'' = 0"
    using get_int_zero_when_absent_or_not_numeric [of error_no_code "''code''"] a by simp
  moreover have "imc_json_get_int error_text_code ''code'' = 0"
    using get_int_zero_when_absent_or_not_numeric [of error_text_code "''code''"] b by simp
  moreover have "imc_json_get_int error_zero_code ''code'' = 0" by code_simp
  ultimately show ?thesis using a b by simp
qed

subsection \<open>Escaping\<close>

lemma of_char_hex_digit:
  "(of_char (hex_digit n) :: nat) = (if n mod 16 < 10 then 48 + n mod 16 else 87 + n mod 16)"
  by (simp add: hex_digit_def Let_def)

lemma hex_digit_neq:
  assumes "(of_char c :: nat) < 48 \<or> (57 < (of_char c :: nat) \<and> (of_char c :: nat) < 97) \<or> 102 < (of_char c :: nat)"
  shows "hex_digit n \<noteq> c"
proof
  assume "hex_digit n = c"
  then have "(of_char c :: nat) = (if n mod 16 < 10 then 48 + n mod 16 else 87 + n mod 16)"
    using of_char_hex_digit[of n] by simp
  with assms show False by (auto split: if_splits)
qed

lemma mod16_le: "(n::nat) mod 16 \<le> 15"
  by presburger

lemma hex_digit_isxdigit: "isxdigit (hex_digit n)"
  using mod16_le[of n] by (simp add: isxdigit_def isdigit_def of_char_hex_digit)
lemma hex_digit_not_space: "\<not> isspace (hex_digit n)"
  by (simp add: isspace_def of_char_hex_digit hex_digit_neq)
lemma hex_digit_not_special:
  "hex_digit n \<noteq> CHR ''-''" "hex_digit n \<noteq> CHR ''+''"
  "hex_digit n \<noteq> CHR ''x''" "hex_digit n \<noteq> CHR ''X''"
  by (simp_all add: hex_digit_neq)
lemma hex_digit_val:
  "xdigit_val (hex_digit n) = int (n mod 16)"
  using mod16_le[of n] by (simp add: isdigit_def xdigit_val_def of_char_hex_digit)

lemma strtol16_hex4_digits:
  "strtol16 (hex4 n) = ((int (n div 4096 mod 16) * 16 + int (n div 256 mod 16)) * 16 + int (n div 16 mod 16)) * 16 + int (n mod 16)"
    by (simp add: strtol16_def hex4_def hex_digit_isxdigit hex_digit_not_space hex_digit_not_special hex_digit_val Let_def)


lemma strtol16_hex4:
  assumes "n < 256" shows "strtol16 (hex4 n) = int n"
proof -
  have a: "n div 4096 = 0" "n div 256 = 0" using assms by simp_all
  have "n div 16 < 16" using assms by (simp add: less_mult_imp_div_less)
  then have b: "n div 16 mod 16 = n div 16" by simp
  have "n div 16 * 16 + n mod 16 = n" by simp
  then have "int (n div 16 * 16 + n mod 16) = int n" by simp
  then have c: "int (n div 16) * 16 + int (n mod 16) = int n"
    by (simp only: of_nat_add of_nat_mult of_nat_numeral)
  show ?thesis unfolding strtol16_hex4_digits a b using c by simp
qed

lemma unescape_plain:
  "c \<noteq> bslash \<Longrightarrow> unescape_loop (c # t) = c # unescape_loop t"
  by (cases t) auto

lemma unescape_u:
  assumes "n < 128"
  shows "unescape_loop (bslash # CHR ''u'' # hex4 n @ t) = char_of n # unescape_loop t"
proof -
  have l: "length (hex4 n) = 4" by (simp add: hex4_def)
  have v: "strtol16 (hex4 n) = int n" using assms by (simp add: strtol16_hex4)
  have "unescape_loop (bslash # CHR ''u'' # (hex4 n @ t))
        = (let v = strtol16 (take 4 (hex4 n @ t)) in (if v < 128 then char_of v else CHR ''?'') # unescape_loop (drop 4 (hex4 n @ t)))"
    using l by simp
  also have "\<dots> = char_of (int n) # unescape_loop t"
    using l assms v by simp
  finally show ?thesis by simp
qed

lemma unescape_escape_char:
  assumes "(of_char c :: nat) < 128"
  shows "unescape_loop (escape_loop (c # cs)) = c # unescape_loop (escape_loop cs)"
proof -
  let ?r = "escape_loop cs"
  let ?short = "c = dquote \<or> c = bslash \<or> c = CHR 0x08 \<or> c = CHR 0x0C \<or> c = CHR 0x0A
                \<or> c = CHR 0x0D \<or> c = CHR 0x09"
  show ?thesis
  proof (cases ?short)
    case True
    then show ?thesis by (elim disjE) simp_all
  next
    case False
    show ?thesis
    proof (cases "char_value c < 32")
      case True
      with False have e: "escape_loop (c # cs) = bslash # CHR ''u'' # hex4 (of_char c) @ ?r"
        by simp
      show ?thesis unfolding e using unescape_u[OF assms, of ?r] by (simp del: unescape_loop.simps)
    next
      case nc: False
      with False have e: "escape_loop (c # cs) = c # ?r" by simp
      from False have "c \<noteq> bslash" by simp
      then show ?thesis unfolding e by (rule unescape_plain)
    qed
  qed
qed

lemma unescape_loop_escape:
  "list_all (\<lambda>c. (of_char c :: nat) < 128) s \<Longrightarrow> unescape_loop (escape_loop s) = s"
proof (induction s)
  case Nil then show ?case by simp
next
  case (Cons c cs)
  then have "(of_char c :: nat) < 128" and "unescape_loop (escape_loop cs) = cs" by simp_all
  then show ?case by (simp only: unescape_escape_char)
qed

lemma c_str_ascii:
  assumes "ascii_text s" shows "c_str s = s"
proof -
  have "c \<noteq> CHR 0x00" if "c \<in> set s" for c
  proof
    assume z: "c = CHR 0x00"
    from that assms have "0 < (of_char c :: nat)" by (simp add: ascii_text_def list_all_iff)
    then show False unfolding z by simp
  qed
  then show ?thesis by (simp add: c_str_def)
qed


text \<open>
  When no store of the escape falls outside its buffer, escaping followed by unescaping gives
  back every string of 7-bit ASCII, so escaping is injective on the strings of 7-bit ASCII it
  returns a result for. A control character other than \<^verbatim>\<open>\b\<close>, \<^verbatim>\<open>\f\<close>, \<^verbatim>\<open>\n\<close>, \<^verbatim>\<open>\r\<close>, \<^verbatim>\<open>\t\<close> has
  seven bytes stored for it where the buffer has two: alone, or after three plain characters,
  its escape runs over the buffer, and before four plain characters it does not.
\<close>

lemma unescape_escape_ascii:
  assumes "ascii_text s" and "imc_escape_json s = Some e"
  shows "imc_unescape_json e = s"
proof -
  from assms(1) have "list_all (\<lambda>c. (of_char c :: nat) < 128) s"
    by (simp add: ascii_text_def list_all_iff)
  then have "unescape_loop (escape_loop s) = s" by (rule unescape_loop_escape)
  moreover from assms(2) have "e = escape_loop s"
    by (simp add: imc_escape_json_def split: if_splits)
  ultimately show ?thesis using c_str_ascii[OF assms(1)] by (simp add: imc_unescape_json_def)
qed

lemma imc_escape_json_inj_on_ascii:
  assumes "ascii_text s" and "ascii_text t"
    and "imc_escape_json s = Some e" and "imc_escape_json t = Some e"
  shows "s = t"
  using unescape_escape_ascii[OF assms(1,3)] unescape_escape_ascii[OF assms(2,4)] by simp

lemma imc_escape_json_overrun:
  "imc_escape_json [CHR 0x01] = None
   \<and> imc_escape_json ''ab'' = Some ''ab''
   \<and> imc_escape_json [CHR ''a'', CHR ''b'', CHR ''c'', CHR 0x01] = None
   \<and> imc_escape_json [CHR 0x01, CHR ''a'', CHR ''b'', CHR ''c'', CHR ''d'']
       = Some (bslash # ''u0001abcd'')"
  by code_simp

text \<open>
  C8. Reading back what the emitter wrote is to give the document that was emitted. For the
  auth envelope \<^verbatim>\<open>imc_create_auth\<close> builds, the members \<open>from.mud\<close>, \<open>to.mud\<close> and
  \<open>payload.token\<close> that went in are not found by the keys \<^verbatim>\<open>imc_parse_message\<close> uses, the
  plain key \<open>mud\<close> yields the sender for both \<open>from\<close> and \<open>to\<close>, and the emitted text closes
  only the outermost of its five objects.
\<close>

theorem emitted_auth_not_read_back:
  "\<exists>doc. imc_create_auth ''a1'' ''2024-01-01T00:00:00Z'' = Some doc
     \<and> imc_json_get_string doc ''from.mud'' = None
     \<and> imc_json_get_string doc ''to.mud'' = None
     \<and> imc_json_get_string doc ''payload.token'' = None
     \<and> imc_json_get_string doc ''mud'' = Some IMC_MUD_NAME
     \<and> length (filter (\<lambda>c. c = CHR ''{'') doc) = 5
     \<and> length (filter (\<lambda>c. c = CHR ''}'') doc) = 1"
proof -
  let ?doc = "the (imc_create_auth ''a1'' ''2024-01-01T00:00:00Z'')"
  have "imc_create_auth ''a1'' ''2024-01-01T00:00:00Z'' = Some ?doc" by code_simp
  moreover have "imc_json_get_string ?doc ''from.mud'' = None" by code_simp
  moreover have "imc_json_get_string ?doc ''to.mud'' = None" by code_simp
  moreover have "imc_json_get_string ?doc ''payload.token'' = None" by code_simp
  moreover have "imc_json_get_string ?doc ''mud'' = Some IMC_MUD_NAME" by code_simp
  moreover have "length (filter (\<lambda>c. c = CHR ''{'') ?doc) = 5" by code_simp
  moreover have "length (filter (\<lambda>c. c = CHR ''}'') ?doc) = 1" by code_simp
  ultimately show ?thesis by blast
qed

section \<open>Connection state machine: properties\<close>

subsection \<open>What the callees leave unchanged\<close>

lemma message_built_fields [simp]:
  "imc_data (message_built msg g) = imc_data g"
  "imc_active (message_built msg g) = imc_active g"
  "nsent (message_built msg g) = nsent g"
  "nconnect (message_built msg g) = nconnect g"
  "last_loop (message_built msg g) = last_loop g"
  "last_rate_reset (message_built msg g) = last_rate_reset g"
  by (cases msg; simp add: message_built_def)+

lemma last_pong_message_built: "last_pong_of (message_built msg g) = last_pong_of g"
  by (simp add: last_pong_of_def)

lemma last_pong_of_Some: "last_pong_of g = Some p \<Longrightarrow> \<exists>d. imc_data g = Some d \<and> last_pong d = p"
  by (cases "imc_data g") (simp_all add: last_pong_of_def)

lemma last_pong_disconnect: "last_pong_of (imc_disconnect env g) = last_pong_of g"
  by (cases "imc_data g") (simp_all add: imc_disconnect_def last_pong_of_def)

lemma last_pong_nsent: "last_pong_of (g\<lparr>nsent := n\<rparr>) = last_pong_of g"
  by (simp add: last_pong_of_def)

lemma last_pong_send: "last_pong_of (imc_send_message env json g) = last_pong_of g"
proof (cases "imc_data g")
  case None
  then show ?thesis by (simp add: imc_send_message_def)
next
  case (Some d)
  then show ?thesis
    by (simp add: imc_send_message_def last_pong_disconnect last_pong_nsent)
qed

lemma last_pong_handle:
  "type \<noteq> IMC_MSG_PONG \<Longrightarrow>
   last_pong_of (imc_handle_message env type fm fu tm tu payload g) = last_pong_of g"
  by (cases type) (simp_all add: imc_handle_message_def Let_def last_pong_send split: option.splits)

lemma msg_type_of_pong: "msg_type_of ts = Some IMC_MSG_PONG \<Longrightarrow> ts = ''pong''"
  by (simp add: msg_type_of_def split: if_splits)

lemma last_pong_parse:
  assumes "\<not> pong_line line"
  shows "last_pong_of (snd (imc_parse_message env line g)) = last_pong_of g"
proof (cases "imc_json_get_string line ''type''")
  case None
  then show ?thesis by (simp add: imc_parse_message_def)
next
  case (Some ts)
  with assms have ts: "ts \<noteq> ''pong''" by (simp add: pong_line_def)
  show ?thesis
  proof (cases "msg_type_of ts")
    case None
    with Some show ?thesis by (simp add: imc_parse_message_def)
  next
    case t: (Some type)
    with ts have "type \<noteq> IMC_MSG_PONG" using msg_type_of_pong by blast
    with Some t show ?thesis by (simp add: imc_parse_message_def Let_def last_pong_handle)
  qed
qed

lemma last_pong_process_lines:
  "\<not> list_ex pong_line ls \<Longrightarrow> last_pong_of (process_lines env ls g) = last_pong_of g"
proof (induction ls arbitrary: g)
  case Nil
  then show ?case by simp
next
  case (Cons l ls)
  then have l: "\<not> pong_line l" and ls: "\<not> list_ex pong_line ls" by simp_all
  show ?case using Cons.IH[OF ls] last_pong_parse[OF l] by simp
qed

lemma last_pong_upd:
  "(\<And>d. last_pong (f d) = last_pong d) \<Longrightarrow> last_pong_of (upd f g) = last_pong_of g"
  by (cases "imc_data g") (simp_all add: upd_def last_pong_of_def)

lemma last_pong_process_input:
  assumes "imc_data g = Some d" and "\<not> pong_received env d"
  shows "last_pong_of (imc_process_input env g) = Some (last_pong d)"
proof -
  have g: "last_pong_of g = Some (last_pong d)" using assms(1) by (simp add: last_pong_of_def)
  show ?thesis
  proof (cases "recv_result env")
    case Recv_error
    with assms g show ?thesis by (simp add: imc_process_input_def last_pong_disconnect)
  next
    case Recv_nothing
    with assms g show ?thesis by (simp add: imc_process_input_def)
  next
    case (Recv_data bytes)
    let ?buf = "buffer d @ bytes"
    let ?g0 = "upd (\<lambda>d. d\<lparr>buffer := ?buf\<rparr>) g"
    let ?g1 = "process_lines env (fst (split_lines [] (c_str ?buf))) ?g0"
    from assms(2) Recv_data have "\<not> list_ex pong_line (fst (split_lines [] (c_str ?buf)))"
      by (simp add: pong_received_def received_lines_def)
    then have "last_pong_of ?g1 = last_pong_of ?g0"
      by (rule last_pong_process_lines)
    also have "\<dots> = Some (last_pong d)" using g by (simp add: last_pong_upd)
    finally have g1: "last_pong_of ?g1 = Some (last_pong d)" .
    then obtain d1 where d1: "imc_data ?g1 = Some d1" by (auto dest: last_pong_of_Some)
    have a: "last_pong_of (?g1\<lparr>bad_store := True\<rparr>) = Some (last_pong d)"
      using g1 by (simp add: last_pong_of_def)
    have b: "last_pong_of (upd (\<lambda>d. d\<lparr>buffer := r\<rparr>) ?g1) = Some (last_pong d)" for r
      using g1 by (simp add: last_pong_upd)
    have c: "last_pong_of ?g0 = Some (last_pong d)" using g by (simp add: last_pong_upd)
    from assms(1) Recv_data d1 g g1 a b c show ?thesis
      by (simp add: imc_process_input_def Let_def)
  qed
qed

lemma state_of_disconnect:
  "imc_data g = Some d \<Longrightarrow> state_of (imc_disconnect env g) = Some IMC_DISCONNECTED"
  by (simp add: imc_disconnect_def state_of_def)

lemma state_of_rate_reset:
  "state_of (if c then (imc_reset_rate_limits g)\<lparr>last_rate_reset := now\<rparr> else g) = state_of g"
  by (simp add: imc_reset_rate_limits_def state_of_def)


text \<open>
  C3, as stated: an authenticated connection that has seen no pong for more than twice the
  ping interval is disconnected by the next poll, also when \<open>last_pong\<close> is still 0. It fails
  in that case: in the scenario of the specification (authenticated at 0, \<open>last_pong = 0\<close>,
  polls at 60 and 180, nothing received) the state after the poll at 180 is still
  authenticated. The poll at 60 sends no ping either; the first ping goes out at 180.
\<close>

theorem pong_never_seen_counterexample:
  "state_of (imc_loop_run [(gateway_up 60, 60), (gateway_up 180, 180)] (authenticated_client 0))
     = Some IMC_AUTHENTICATED
   \<and> nsent (imc_loop_run [(gateway_up 60, 60)] (authenticated_client 0)) = 0
   \<and> nsent (imc_loop_run [(gateway_up 60, 60), (gateway_up 180, 180)] (authenticated_client 0)) = 1"
  by code_simp

text \<open>
  C3, amended. When the client is active and authenticated, a pong has been received before
  (\<open>last_pong > 0\<close>), more than twice the ping interval has passed since, and the lines this
  poll receives hold no pong, then a poll in a second other than that of the previous poll
  leaves the connection disconnected.
\<close>

theorem pong_timeout_disconnects:
  assumes "imc_active g" and "imc_data g = Some d" and "state d = IMC_AUTHENTICATED"
    and "now \<noteq> last_loop g"
    and "0 < last_pong d" and "now - last_pong d > 2 * IMC_PING_INTERVAL"
    and "\<not> pong_received env d"
  shows "state_of (imc_loop env now g) = Some IMC_DISCONNECTED"
proof -
  let ?g1 = "g\<lparr>last_loop := now\<rparr>"
  let ?g3 = "imc_process_input env ?g1"
  let ?ping = "imc_create_ping (uuid env) (timestamp env) (time_io env)"
  let ?A = "upd (\<lambda>d. d\<lparr>last_ping := now\<rparr>)
              (imc_send_message env (message_text ?ping) (message_built ?ping ?g3))"
  have late: "IMC_PING_INTERVAL * 2 < now - last_pong d" using assms(6) by (simp add: mult.commute)
  have lp3: "last_pong_of ?g3 = Some (last_pong d)"
    using assms(2,7) by (intro last_pong_process_input) simp_all
  then obtain d3 where d3: "imc_data ?g3 = Some d3" "last_pong d3 = last_pong d"
    by (auto dest: last_pong_of_Some)
  have "last_pong_of ?A = Some (last_pong d)"
    using lp3 by (simp add: last_pong_upd last_pong_send last_pong_message_built)
  then obtain dA where dA: "imc_data ?A = Some dA" "last_pong dA = last_pong d"
    by (auto dest: last_pong_of_Some)
  show ?thesis
  proof (cases "now - last_ping d3 > IMC_PING_INTERVAL")
    case True
    have "imc_loop env now g =
            (if now - last_rate_reset (imc_disconnect env ?A) \<ge> 60
             then (imc_reset_rate_limits (imc_disconnect env ?A))\<lparr>last_rate_reset := now\<rparr>
             else imc_disconnect env ?A)"
      using assms(1-5) late d3 dA True by (simp add: imc_loop_def Let_def)
    then show ?thesis
      using state_of_disconnect[OF dA(1)] by (simp only: state_of_rate_reset)
  next
    case False
    have "imc_loop env now g =
            (if now - last_rate_reset (imc_disconnect env ?g3) \<ge> 60
             then (imc_reset_rate_limits (imc_disconnect env ?g3))\<lparr>last_rate_reset := now\<rparr>
             else imc_disconnect env ?g3)"
      using assms(1-5) late d3 False by (simp add: imc_loop_def Let_def)
    then show ?thesis
      using state_of_disconnect[OF d3(1)] by (simp only: state_of_rate_reset)
  qed
qed


theorem pong_timeout_disconnects_witness:
  "imc_active (authenticated_client 50)
   \<and> imc_data (authenticated_client 50) = Some (authenticated_data 50)
   \<and> state (authenticated_data 50) = IMC_AUTHENTICATED
   \<and> 180 \<noteq> last_loop (authenticated_client 50)
   \<and> 0 < last_pong (authenticated_data 50)
   \<and> 180 - last_pong (authenticated_data 50) > 2 * IMC_PING_INTERVAL
   \<and> \<not> pong_received (gateway_delivers tell_envelope 180) (authenticated_data 50)
   \<and> state_of (imc_loop (gateway_delivers tell_envelope 180) 180 (authenticated_client 50))
       = Some IMC_DISCONNECTED"
proof -
  have h1: "imc_active (authenticated_client 50)" by code_simp
  have h2: "imc_data (authenticated_client 50) = Some (authenticated_data 50)" by code_simp
  have h3: "state (authenticated_data 50) = IMC_AUTHENTICATED" by code_simp
  have h4: "180 \<noteq> last_loop (authenticated_client 50)" by code_simp
  have h5: "0 < last_pong (authenticated_data 50)" by code_simp
  have h6: "180 - last_pong (authenticated_data 50) > 2 * IMC_PING_INTERVAL" by code_simp
  have h7: "\<not> pong_received (gateway_delivers tell_envelope 180) (authenticated_data 50)"
    by code_simp
  from pong_timeout_disconnects [OF h1 h2 h3 h4 h5 h6 h7] h1 h2 h3 h4 h5 h6 h7
  show ?thesis by simp
qed

subsection \<open>Reconnecting\<close>













text \<open>
  C6, as stated: the counter of reconnect attempts is reset to 0 on the first transition into
  the authenticated state and at no earlier point. It fails: after three failed attempts, a
  reconnect that opens the stream, completes the handshake and sends the auth envelope leaves
  the counter at 0 while the state is authenticating.
\<close>

theorem counter_reset_before_authenticated_counterexample:
  "attempts_of (imc_loop (gateway_up 31) 31 (disconnected_client 3)) = Some 0
   \<and> state_of (imc_loop (gateway_up 31) 31 (disconnected_client 3)) = Some IMC_AUTHENTICATING
   \<and> nsent (imc_loop (gateway_up 31) 31 (disconnected_client 3)) = 1"
  by code_simp

text \<open>
  C6, amended. \<^verbatim>\<open>imc_reconnect\<close> adds one to the counter (taken below \<^verbatim>\<open>INT_MAX\<close>). The counter
  keeps the new value when it exceeds \<^verbatim>\<open>IMC_MAX_RECONNECTS\<close>, when the connection cannot be
  opened and when the handshake fails. It is reset to 0 exactly when \<^verbatim>\<open>imc_connect\<close>
  succeeds, which is when the stream is open, the handshake has succeeded and the auth
  envelope has been passed to \<^verbatim>\<open>imc_websocket_send\<close>; the state is then authenticating.
\<close>

theorem reconnect_counter_reset_on_connect:
  assumes "imc_data g = Some d" and "reconnect_attempts d < 2147483647"
  shows "attempts_of (imc_reconnect env g)
           = Some (if reconnect_attempts d + 1 \<le> IMC_MAX_RECONNECTS
                      \<and> 0 \<le> connect_result env \<and> handshake_result env
                   then 0 else reconnect_attempts d + 1)
         \<and> (if reconnect_attempts d + 1 \<le> IMC_MAX_RECONNECTS
                \<and> 0 \<le> connect_result env \<and> handshake_result env
             then state_of (imc_reconnect env g) = Some IMC_AUTHENTICATING
                  \<and> nsent (imc_reconnect env g) = nsent g + 1
             else nsent (imc_reconnect env g) = nsent g)"
  using assms
  by (auto simp: imc_reconnect_def imc_connect_def imc_authenticate_def imc_send_message_def
        imc_disconnect_def upd_def Let_def attempts_of_def state_of_def
        IMC_ERR_NETWORK_def IMC_ERR_NONE_def IMC_ERR_AUTH_FAILED_def)


theorem reconnect_counter_reset_on_connect_witness:
  "imc_data (disconnected_client 3) = Some (disconnected_data 3)
   \<and> reconnect_attempts (disconnected_data 3) < 2147483647
   \<and> attempts_of (imc_reconnect (gateway_up 31) (disconnected_client 3)) = Some 0
   \<and> state_of (imc_reconnect (gateway_up 31) (disconnected_client 3)) = Some IMC_AUTHENTICATING
   \<and> nsent (imc_reconnect (gateway_up 31) (disconnected_client 3)) = 1
   \<and> attempts_of (imc_reconnect (gateway_down 31) (disconnected_client 3)) = Some 4
   \<and> nsent (imc_reconnect (gateway_down 31) (disconnected_client 3)) = 0"
proof -
  have h1: "imc_data (disconnected_client 3) = Some (disconnected_data 3)" by code_simp
  have h2: "reconnect_attempts (disconnected_data 3) < 2147483647" by code_simp
  have v: "reconnect_attempts (disconnected_data 3) = 3" "nsent (disconnected_client 3) = 0"
    "connect_result (gateway_up 31) = 3" "handshake_result (gateway_up 31) = True"
    "connect_result (gateway_down 31) = - 1"
    by code_simp+
  from reconnect_counter_reset_on_connect [OF h1 h2, of "gateway_up 31"]
    reconnect_counter_reset_on_connect [OF h1 h2, of "gateway_down 31"] v h1 h2
  show ?thesis by (simp add: IMC_MAX_RECONNECTS_def)
qed

section \<open>WebSocket handshake: properties\<close>

subsection \<open>The accept value of the sample key\<close>

lemma sha1_schedule_numeral:
  "sha1_schedule (numeral v) r = sha1_schedule (pred_numeral v) (sched_word r # r)"
  by (simp add: numeral_eq_Suc)

lemma replicate_numeral_unfold:
  "replicate (numeral v) x = x # replicate (pred_numeral v) x"
  by (simp add: numeral_eq_Suc)

lemma sample_padded:
  "be_words (sha1_pad (map of_char (''dGhlIHNhbXBsZSBub25jZQ=='' @ WS_MAGIC_STRING)))
   = [1682401388, 1229475432, 1649951347, 1515405941, 1647457642, 1515273533, 842348613,
      1095123253, 759511345, 875377719, 1145122105, 893600045, 1127563586, 809780024,
      893530417, 2147483648, 0, 0, 0, 0, 0, 0, 0, 0, 0, 0, 0, 0, 0, 0, 0, 480]"
  by (simp add: sha1_pad_def be_bytes4_def WS_MAGIC_STRING_def replicate_numeral_unfold)

lemma sample_block1:
  "sha1_block (0x67452301, 0xEFCDAB89, 0x98BADCFE, 0x10325476, 0xC3D2E1F0)
     [1682401388, 1229475432, 1649951347, 1515405941, 1647457642, 1515273533, 842348613,
      1095123253, 759511345, 875377719, 1145122105, 893600045, 1127563586, 809780024,
      893530417, 2147483648]
   = (1540323111, 1931952490, 3195796473, 1517820024, 1581688034)"
  by (simp add: sha1_block_def rotl32_def add32_def not32_def sha1_f_def sha1_k_def
        sha1_schedule_numeral)

lemma sample_block2:
  "sha1_block (1540323111, 1931952490, 3195796473, 1517820024, 1581688034)
     [0, 0, 0, 0, 0, 0, 0, 0, 0, 0, 0, 0, 0, 0, 0, 480]
   = (3011137324, 3227668246, 2432058886, 3476576581, 2998846698)"
  by (simp add: sha1_block_def rotl32_def add32_def not32_def sha1_f_def sha1_k_def
        sha1_schedule_numeral)

lemma sample_sha1:
  "sha1 (map of_char (''dGhlIHNhbXBsZSBub25jZQ=='' @ WS_MAGIC_STRING))
   = [179, 122, 79, 44, 192, 98, 79, 22, 144, 246, 70, 6, 207, 56, 89, 69, 178, 190, 196, 234]"
  unfolding sha1_def sample_padded
  by (simp add: sample_block1 sample_block2 be_bytes4_def)

lemma sample_accept: "calculate_accept_hash ''dGhlIHNhbXBsZSBub25jZQ=='' = ''s3pPLMBiTxaQ9kYGzzhZRbK+xOo=''"
  unfolding calculate_accept_hash_def sample_sha1
  by (simp add: base64_char_def char_of_eq_iff)

lemma sample_key: "base64_encode (map of_char ''the sample nonce'') = ''dGhlIHNhbXBsZSBub25jZQ==''"
  by (simp add: base64_char_def char_of_eq_iff)

subsection \<open>The handshake\<close>

text \<open>\<^verbatim>\<open>strstr\<close> finds the needle exactly when the haystack contains it.\<close>

lemma strstr_Some: "strstr h n = Some p \<Longrightarrow> \<exists>a b. h = a @ n @ b"
proof (induction h)
  case Nil
  then show ?case by (simp split: if_splits)
next
  case (Cons c cs)
  show ?case
  proof (cases "take (length n) (c # cs) = n")
    case True
    then have "c # cs = [] @ n @ drop (length n) (c # cs)"
      by (metis append_Nil append_take_drop_id)
    then show ?thesis by blast
  next
    case False
    with Cons.prems have "strstr cs n = Some p" by simp
    then obtain a b where "cs = a @ n @ b" using Cons.IH by blast
    then have "c # cs = (c # a) @ n @ b" by simp
    then show ?thesis by blast
  qed
qed

lemma strstr_None: "strstr h n = None \<Longrightarrow> h \<noteq> a @ n @ b"
proof (induction h arbitrary: a)
  case Nil
  then show ?case by (auto split: if_splits)
next
  case (Cons c cs)
  then have nt: "take (length n) (c # cs) \<noteq> n" and r: "strstr cs n = None"
    by (simp_all split: if_splits)
  show ?case
  proof (cases a)
    case Nil
    show ?thesis
    proof
      assume "c # cs = a @ n @ b"
      then have "take (length n) (c # cs) = n" using Nil by simp
      with nt show False by simp
    qed
  next
    case (Cons x xs)
    show ?thesis
    proof
      assume "c # cs = a @ n @ b"
      then have "cs = xs @ n @ b" using Cons by simp
      with Cons.IH[OF r, of xs] show False by simp
    qed
  qed
qed

lemma strstr_contains: "(strstr h n \<noteq> None) = (\<exists>a b. h = a @ n @ b)"
  using strstr_Some strstr_None by (cases "strstr h n") blast+

text \<open>
  C5, amended. The handshake succeeds exactly when the request was sent, a response was
  read, the response starts with \<open>HTTP/1.1 101\<close> and contains the text
  \<open>Sec-WebSocket-Accept: \<close> followed by the Base64 of the SHA-1 of the key and the GUID;
  what follows that text in the response is not examined. For the key
  \<open>dGhlIHNhbXBsZSBub25jZQ==\<close> the expected value is \<open>s3pPLMBiTxaQ9kYGzzhZRbK+xOo=\<close>.
\<close>

theorem handshake_succeeds_iff:
  "imc_websocket_handshake hio =
     (0 \<le> bytes_sent hio \<and> 0 < select_result hio
      \<and> (\<exists>bytes a b. received hio = Some bytes
            \<and> take 12 (c_str (take 2047 bytes)) = ''HTTP/1.1 101''
            \<and> c_str (take 2047 bytes)
                = a @ ''Sec-WebSocket-Accept: ''
                    @ calculate_accept_hash (generate_websocket_key (rand_bytes hio)) @ b))
   \<and> calculate_accept_hash ''dGhlIHNhbXBsZSBub25jZQ=='' = ''s3pPLMBiTxaQ9kYGzzhZRbK+xOo=''"
proof -
  have "imc_websocket_handshake hio =
     (0 \<le> bytes_sent hio \<and> 0 < select_result hio
      \<and> (\<exists>bytes. received hio = Some bytes
            \<and> take 12 (c_str (take 2047 bytes)) = ''HTTP/1.1 101''
            \<and> strstr (c_str (take 2047 bytes))
                 (''Sec-WebSocket-Accept: ''
                    @ calculate_accept_hash (generate_websocket_key (rand_bytes hio))) \<noteq> None))"
    by (cases "received hio") (auto simp: imc_websocket_handshake_def Let_def)
  then show ?thesis
    unfolding strstr_contains using sample_accept by (simp only: append_assoc) blast
qed

lemma sample_handshake_key:
  "generate_websocket_key (rand_bytes (sample_handshake accept)) = ''dGhlIHNhbXBsZSBub25jZQ==''"
  by (simp add: sample_handshake_def generate_websocket_key_def base64_char_def char_of_eq_iff)

lemma sample_handshake_fields:
  "bytes_sent (sample_handshake accept) = 151" "select_result (sample_handshake accept) = 1"
  "received (sample_handshake accept) =
     Some (''HTTP/1.1 101 Switching Protocols'' @ crlf @ ''Upgrade: websocket'' @ crlf
           @ ''Connection: Upgrade'' @ crlf @ ''Sec-WebSocket-Accept: '' @ accept @ crlf @ crlf)"
  by (simp_all add: sample_handshake_def)

text \<open>
  C5, as stated: the handshake succeeds if and only if the status is 101 and the accept value
  of the server equals the expected one. It fails: with the sample key, a response whose
  status is 101 and whose accept header has the value \<open>s3pPLMBiTxaQ9kYGzzhZRbK+xOo=x\<close>, one
  character longer than the expected value, completes the handshake.
\<close>

theorem accept_value_prefix_counterexample:
  "imc_websocket_handshake (sample_handshake ''s3pPLMBiTxaQ9kYGzzhZRbK+xOo=x'') = True
   \<and> map_option http_status (received (sample_handshake ''s3pPLMBiTxaQ9kYGzzhZRbK+xOo=x'')) = Some ''101''
   \<and> map_option (header_value ''Sec-WebSocket-Accept'')
        (received (sample_handshake ''s3pPLMBiTxaQ9kYGzzhZRbK+xOo=x''))
      = Some (Some ''s3pPLMBiTxaQ9kYGzzhZRbK+xOo=x'')
   \<and> calculate_accept_hash (generate_websocket_key (rand_bytes (sample_handshake ''s3pPLMBiTxaQ9kYGzzhZRbK+xOo=x'')))
      = ''s3pPLMBiTxaQ9kYGzzhZRbK+xOo=''"
proof -
  have "imc_websocket_handshake (sample_handshake ''s3pPLMBiTxaQ9kYGzzhZRbK+xOo=x'') = True"
    unfolding imc_websocket_handshake_def sample_handshake_key sample_handshake_fields
    by (simp add: c_str_def sample_accept)
  moreover have "map_option http_status (received (sample_handshake ''s3pPLMBiTxaQ9kYGzzhZRbK+xOo=x'')) = Some ''101''"
    unfolding sample_handshake_fields by (simp add: http_status_def)
  moreover have "map_option (header_value ''Sec-WebSocket-Accept'')
        (received (sample_handshake ''s3pPLMBiTxaQ9kYGzzhZRbK+xOo=x''))
      = Some (Some ''s3pPLMBiTxaQ9kYGzzhZRbK+xOo=x'')"
    unfolding sample_handshake_fields by (simp add: header_value_def)
  ultimately show ?thesis
    unfolding sample_handshake_key sample_accept by simp
qed


end
